theory Spec2Isabelle
  imports Complex_Main "HOL-Library.AList"
begin

section \<open>Data model (src/types)\<close>

text \<open>
  Monetary values are the integer minor units (cents) the type declarations document, so
  \<open>number\<close> fields holding money are \<open>int\<close>, and their sums and comparisons are those of
  the integers. The one operation of the source that leaves the integers, the product
  \<open>balance * 0.02\<close> of the statement generator, is modelled in binary64 arithmetic. A
  \<open>Date\<close> is its \<open>getTime()\<close> value in milliseconds, which is what the comparisons and
  the sort comparator of the source read. Record fields carry a short prefix where two
  interfaces of the source share a field name.
\<close>

datatype AccountStatus = AccountActive | AccountFrozen | AccountClosed

datatype CardStatus = CardActive | CardFrozen | CardCancelled

datatype TransactionStatus = Approved | Denied

datatype DenialReason =
    card_not_found
  | card_not_active
  | account_not_found
  | account_not_active
  | insufficient_credit
  | exceeds_card_limit

record Account =
  acc_id :: string
  creditLimit :: int
  currentBalance :: int
  acc_status :: AccountStatus
  acc_createdAt :: int
  acc_updatedAt :: int

record Card =
  crd_id :: string
  crd_accountId :: string
  crd_status :: CardStatus
  spendingLimit :: "int option"
  crd_createdAt :: int
  crd_updatedAt :: int

record MerchantAddress =
  line1 :: string
  line2 :: "string option"
  city :: string
  state :: string
  country :: string

record Transaction =
  tx_id :: string
  tx_cardId :: string
  tx_accountId :: string
  tx_amount :: int
  tx_currency :: string
  merchantCategory :: int
  merchantAddress :: MerchantAddress
  tx_status :: TransactionStatus
  denialReason :: "DenialReason option"
  tx_createdAt :: int

record Statement =
  stm_id :: string
  stm_accountId :: string
  periodStart :: int
  periodEnd :: int
  openingBalance :: int
  closingBalance :: int
  totalSpent :: int
  minimumPayment :: int
  dueDate :: int
  stm_createdAt :: int

record PayloadAddress =
  line_1 :: string
  line_2 :: "string option"
  pa_city :: string
  pa_state :: string
  pa_country :: string

record MerchantData =
  category :: int
  address :: PayloadAddress

record TransactionWebhookPayload =
  pl_id :: string
  card_id :: string
  amount :: int
  currency :: string
  merchant_data :: MerchantData

record WebhookResponse =
  approved :: bool

record ApprovalResult =
  res_approved :: bool
  res_reason :: "DenialReason option"
  res_card :: "Card option"
  res_account :: "Account option"

section \<open>The in-memory store (src/db/index.ts)\<close>

text \<open>
  Each JavaScript \<open>Map\<close> is an association list in insertion order: \<open>get\<close> is
  \<open>map_of\<close>, \<open>set\<close> is \<open>AList.update\<close> (an existing key keeps its position and gets
  the new value, a new key is appended), and \<open>Array.from(m.values())\<close> is \<open>map snd\<close>.
  The \<open>statements\<close> array is a list, \<open>push\<close> appends.
\<close>

record Db =
  accounts :: "(string \<times> Account) list"
  cards :: "(string \<times> Card) list"
  transactions :: "(string \<times> Transaction) list"
  statements :: "Statement list"

definition accounts_findById :: "Db \<Rightarrow> string \<Rightarrow> Account option" where
  "accounts_findById db i = map_of (accounts db) i"

definition cards_findById :: "Db \<Rightarrow> string \<Rightarrow> Card option" where
  "cards_findById db i = map_of (cards db) i"

definition transactions_findById :: "Db \<Rightarrow> string \<Rightarrow> Transaction option" where
  "transactions_findById db i = map_of (transactions db) i"

definition transactions_create :: "Db \<Rightarrow> Transaction \<Rightarrow> Db" where
  "transactions_create db t = db\<lparr>transactions := AList.update (tx_id t) t (transactions db)\<rparr>"

text \<open>\<open>updateBalance\<close>: \<open>now\<close> is the value of the \<open>new Date()\<close> it reads.\<close>

definition accounts_updateBalance :: "int \<Rightarrow> Db \<Rightarrow> string \<Rightarrow> int \<Rightarrow> Db \<times> Account option" where
  "accounts_updateBalance now db i amountToAdd =
     (case map_of (accounts db) i of
        None \<Rightarrow> (db, None)
      | Some account \<Rightarrow>
          let account' = account\<lparr>currentBalance := currentBalance account + amountToAdd,
                                 acc_updatedAt := now\<rparr>
          in (db\<lparr>accounts := AList.update i account' (accounts db)\<rparr>, Some account'))"

section \<open>Approval logic (processTransaction)\<close>

definition deny :: "DenialReason \<Rightarrow> ApprovalResult" where
  "deny r = \<lparr>res_approved = False, res_reason = Some r, res_card = None, res_account = None\<rparr>"

text \<open>
  The guard \<open>card.spendingLimit && payload.amount > card.spendingLimit\<close> tests the
  truthiness of an optional number first: \<open>undefined\<close> and \<open>0\<close> are both falsy.
\<close>

definition processTransaction :: "Db \<Rightarrow> TransactionWebhookPayload \<Rightarrow> ApprovalResult" where
  "processTransaction db payload =
     (case transactions_findById db (pl_id payload) of
        Some existingTransaction \<Rightarrow>
          \<lparr>res_approved = (tx_status existingTransaction = Approved),
           res_reason = denialReason existingTransaction,
           res_card = None, res_account = None\<rparr>
      | None \<Rightarrow>
         (case cards_findById db (card_id payload) of
            None \<Rightarrow> deny card_not_found
          | Some crd \<Rightarrow>
              if crd_status crd \<noteq> CardActive then deny card_not_active
              else
               (case accounts_findById db (crd_accountId crd) of
                  None \<Rightarrow> deny account_not_found
                | Some account \<Rightarrow>
                    if acc_status account \<noteq> AccountActive then deny account_not_active
                    else
                      let newBalance = currentBalance account + amount payload in
                      if newBalance > creditLimit account then deny insufficient_credit
                      else if (case spendingLimit crd of
                                 None \<Rightarrow> False
                               | Some limit \<Rightarrow> limit \<noteq> 0 \<and> amount payload > limit)
                      then deny exceeds_card_limit
                      else \<lparr>res_approved = True, res_reason = None,
                            res_card = Some crd, res_account = Some account\<rparr>)))"

section \<open>Webhook handler (src/services/webhookHandler.ts)\<close>

text \<open>
  \<open>created\<close> is the \<open>new Date()\<close> stored in the record, \<open>updated\<close> the one read by
  \<open>updateBalance\<close>.
\<close>

definition mkTransaction ::
  "int \<Rightarrow> TransactionWebhookPayload \<Rightarrow> ApprovalResult \<Rightarrow> Card option \<Rightarrow> Transaction" where
  "mkTransaction created payload result crd =
     \<lparr>tx_id = pl_id payload,
      tx_cardId = card_id payload,
      tx_accountId = (case crd of None \<Rightarrow> ''unknown'' | Some c \<Rightarrow> crd_accountId c),
      tx_amount = amount payload,
      tx_currency = currency payload,
      merchantCategory = category (merchant_data payload),
      merchantAddress =
        \<lparr>line1 = line_1 (address (merchant_data payload)),
         line2 = line_2 (address (merchant_data payload)),
         city = pa_city (address (merchant_data payload)),
         state = pa_state (address (merchant_data payload)),
         country = pa_country (address (merchant_data payload))\<rparr>,
      tx_status = (if res_approved result then Approved else Denied),
      denialReason = res_reason result,
      tx_createdAt = created\<rparr>"

definition handleTransactionWebhook ::
  "int \<Rightarrow> int \<Rightarrow> Db \<Rightarrow> TransactionWebhookPayload \<Rightarrow> Db \<times> WebhookResponse" where
  "handleTransactionWebhook created updated db payload =
     (let result = processTransaction db payload in
      case transactions_findById db (pl_id payload) of
        Some existingTransaction \<Rightarrow> (db, \<lparr>approved = res_approved result\<rparr>)
      | None \<Rightarrow>
          let crd = (case res_card result of
                        Some c \<Rightarrow> Some c
                      | None \<Rightarrow> cards_findById db (card_id payload));
              db1 = transactions_create db (mkTransaction created payload result crd);
              db2 = (case crd of
                       Some c \<Rightarrow>
                         if res_approved result
                         then fst (accounts_updateBalance updated db1 (crd_accountId c)
                                     (amount payload))
                         else db1
                     | None \<Rightarrow> db1)
          in (db2, \<lparr>approved = res_approved result\<rparr>))"

text \<open>
  Sequential submission: each request runs to completion before the next one starts. A
  request is the pair of clock readings of its run and its payload.
\<close>

fun submitAll ::
  "Db \<Rightarrow> (int \<times> int \<times> TransactionWebhookPayload) list \<Rightarrow> Db \<times> WebhookResponse list" where
  "submitAll db [] = (db, [])"
| "submitAll db ((created, updated, payload) # rest) =
     (let (db1, r) = handleTransactionWebhook created updated db payload;
          (db2, rs) = submitAll db1 rest
      in (db2, r # rs))"

section \<open>The rule chain as an ordered table\<close>

text \<open>
  Each rule of the chain, read off the conditions of \<open>processTransaction\<close> and stated on its
  own (not nested under the rules before it): the pair of "this rule is violated" and the
  reason it reports, in the order of the source. A rule about an entity that cannot be
  resolved (the account of a missing card) is not violated; the rule that resolves the
  entity is.
\<close>

definition ruleTable :: "Db \<Rightarrow> TransactionWebhookPayload \<Rightarrow> (bool \<times> DenialReason) list" where
  "ruleTable db payload =
     (let crd = cards_findById db (card_id payload);
          acc = (case crd of None \<Rightarrow> None | Some c \<Rightarrow> accounts_findById db (crd_accountId c))
      in
      [(crd = None, card_not_found),
       ((case crd of None \<Rightarrow> False | Some c \<Rightarrow> crd_status c \<noteq> CardActive), card_not_active),
       (crd \<noteq> None \<and> acc = None, account_not_found),
       ((case acc of None \<Rightarrow> False | Some a \<Rightarrow> acc_status a \<noteq> AccountActive),
          account_not_active),
       ((case acc of None \<Rightarrow> False
                   | Some a \<Rightarrow> currentBalance a + amount payload > creditLimit a),
          insufficient_credit),
       ((case crd of None \<Rightarrow> False
                   | Some c \<Rightarrow> (case spendingLimit c of
                                 None \<Rightarrow> False
                               | Some limit \<Rightarrow> limit \<noteq> 0 \<and> amount payload > limit)),
          exceeds_card_limit)])"

text \<open>The reason of the first violated rule of a table, if any.\<close>

fun firstViolation :: "(bool \<times> DenialReason) list \<Rightarrow> DenialReason option" where
  "firstViolation [] = None"
| "firstViolation ((violated, r) # rest) = (if violated then Some r else firstViolation rest)"

section \<open>Payload validation and the webhook route (src/utils/helpers.ts, src/server.ts)\<close>

text \<open>
  \<open>validateWebhookPayload\<close> takes an \<open>unknown\<close>: the parsed JSON body. Numbers are the
  integer ones.
\<close>

datatype jsval =
    JUndefined
  | JNull
  | JBool bool
  | JNum int
  | JStr string
  | JArr "jsval list"
  | JObj "(string \<times> jsval) list"

fun truthy :: "jsval \<Rightarrow> bool" where
  "truthy JUndefined = False"
| "truthy JNull = False"
| "truthy (JBool b) = b"
| "truthy (JNum n) = (n \<noteq> 0)"
| "truthy (JStr s) = (s \<noteq> [])"
| "truthy (JArr _) = True"
| "truthy (JObj _) = True"

fun typeof :: "jsval \<Rightarrow> string" where
  "typeof JUndefined = ''undefined''"
| "typeof JNull = ''object''"
| "typeof (JBool _) = ''boolean''"
| "typeof (JNum _) = ''number''"
| "typeof (JStr _) = ''string''"
| "typeof (JArr _) = ''object''"
| "typeof (JObj _) = ''object''"

text \<open>Reading a named property; a property that is absent reads as \<open>undefined\<close>.\<close>

fun getProp :: "jsval \<Rightarrow> string \<Rightarrow> jsval" where
  "getProp (JObj kvs) k = (case map_of kvs k of None \<Rightarrow> JUndefined | Some v \<Rightarrow> v)"
| "getProp _ k = JUndefined"

text \<open>\<open>v == null\<close> holds of \<open>null\<close> and \<open>undefined\<close>.\<close>

fun looselyNull :: "jsval \<Rightarrow> bool" where
  "looselyNull JUndefined = True"
| "looselyNull JNull = True"
| "looselyNull _ = False"

definition validateWebhookPayload :: "jsval \<Rightarrow> string list" where
  "validateWebhookPayload payload =
     (if \<not> truthy payload \<or> typeof payload \<noteq> ''object'' then [''Payload must be an object'']
      else
        (if \<not> truthy (getProp payload ''id'') \<or> typeof (getProp payload ''id'') \<noteq> ''string''
         then [''Missing or invalid \"id\" field''] else [])
        @ (if \<not> truthy (getProp payload ''card_id'')
              \<or> typeof (getProp payload ''card_id'') \<noteq> ''string''
           then [''Missing or invalid \"card_id\" field''] else [])
        @ (if looselyNull (getProp payload ''amount'')
              \<or> typeof (getProp payload ''amount'') \<noteq> ''number''
           then [''Missing or invalid \"amount\" field''] else [])
        @ (if \<not> truthy (getProp payload ''currency'')
              \<or> typeof (getProp payload ''currency'') \<noteq> ''string''
           then [''Missing or invalid \"currency\" field''] else [])
        @ (if \<not> truthy (getProp payload ''merchant_data'')
              \<or> typeof (getProp payload ''merchant_data'') \<noteq> ''object''
           then [''Missing or invalid \"merchant_data\" field''] else []))"

text \<open>
  The request body of a payload of the declared type \<open>TransactionWebhookPayload\<close>: the
  object the route casts to that type. An absent \<open>line_2\<close> is an absent property.
\<close>

definition jsOfPayload :: "TransactionWebhookPayload \<Rightarrow> jsval" where
  "jsOfPayload p =
     JObj [(''id'', JStr (pl_id p)),
           (''card_id'', JStr (card_id p)),
           (''amount'', JNum (amount p)),
           (''currency'', JStr (currency p)),
           (''merchant_data'',
             JObj [(''category'', JNum (category (merchant_data p))),
                   (''address'',
                     JObj ([(''line_1'', JStr (line_1 (address (merchant_data p))))]
                           @ (case line_2 (address (merchant_data p)) of
                                None \<Rightarrow> []
                              | Some l \<Rightarrow> [(''line_2'', JStr l)])
                           @ [(''city'', JStr (pa_city (address (merchant_data p)))),
                              (''state'', JStr (pa_state (address (merchant_data p)))),
                              (''country'', JStr (pa_country (address (merchant_data p))))]))])]"

text \<open>
  The handler of \<open>POST /webhooks/transactions\<close> on a body of the declared type: a body that
  fails validation is answered \<open>approved: false\<close> and leaves the store alone, any other is
  handed to \<open>handleTransactionWebhook\<close>.
\<close>

definition postWebhookTransactions ::
  "int \<Rightarrow> int \<Rightarrow> Db \<Rightarrow> TransactionWebhookPayload \<Rightarrow> Db \<times> WebhookResponse" where
  "postWebhookTransactions created updated db payload =
     (let validationErrors = validateWebhookPayload (jsOfPayload payload) in
      if length validationErrors > 0 then (db, \<lparr>approved = False\<rparr>)
      else handleTransactionWebhook created updated db payload)"

section \<open>Statement generator\<close>

subsection \<open>The product \<open>balance * 0.02\<close> in binary64\<close>

text \<open>
  \<open>balance * 0.02\<close> is the one place where the source leaves the integers: the literal
  \<open>0.02\<close> is the binary64 number \<open>5764607523034235 / 2^58\<close> (hexadecimal
  \<open>0x1.47ae147ae147bp-6\<close>), and the product of two binary64 numbers is their exact product
  rounded to 53 significant bits, ties to even. For an integer \<open>balance\<close> the exact product
  is \<open>balance * 5764607523034235 / 2^58\<close>; rounding the numerator to 53 significant bits
  rounds the quotient, since scaling by a power of two is exact (the product of a nonzero
  integer and \<open>0.02\<close> neither overflows nor is subnormal).
\<close>

function bitLength :: "int \<Rightarrow> nat" where
  "bitLength n = (if n \<le> 0 then 0 else Suc (bitLength (n div 2)))"
  by pat_completeness auto
termination
  by (relation "measure nat") auto

declare bitLength.simps [simp del]

text \<open>
  \<open>n / 2^s\<close>, for \<open>n \<ge> 0\<close>, rounded to the nearest integer, a tie going to the even one.
\<close>

definition roundShift :: "int \<Rightarrow> nat \<Rightarrow> int" where
  "roundShift n s =
     (let q = n div 2 ^ s; r = n mod 2 ^ s; h = 2 ^ (s - 1)
      in if s = 0 then n
         else if r < h \<or> (r = h \<and> even q) then q else q + 1)"

text \<open>\<open>n \<ge> 0\<close> rounded to 53 significant bits.\<close>

definition round53 :: "int \<Rightarrow> int" where
  "round53 n = (let s = bitLength n - 53 in roundShift n s * 2 ^ s)"

text \<open>An integer that is a binary64 number: in range, with at most 53 significant bits.\<close>

definition isDouble :: "int \<Rightarrow> bool" where
  "isDouble b = (bitLength \<bar>b\<bar> \<le> 1024 \<and> 2 ^ (bitLength \<bar>b\<bar> - 53) dvd b)"

definition literal_0_02 :: int where
  "literal_0_02 = 5764607523034235"

text \<open>The numerator, over \<open>2^58\<close>, of the binary64 value of \<open>balance * 0.02\<close>.\<close>

definition times_0_02 :: "int \<Rightarrow> int" where
  "times_0_02 balance = sgn balance * round53 (\<bar>balance\<bar> * literal_0_02)"

text \<open>\<open>Math.ceil\<close> of the binary64 number \<open>m / 2^58\<close>; the result is an integer.\<close>

definition Math_ceil :: "int \<Rightarrow> int" where
  "Math_ceil m = - ((- m) div 2 ^ 58)"

definition calculateMinimumPayment :: "int \<Rightarrow> int" where
  "calculateMinimumPayment balance =
     (if balance \<le> 0 then 0
      else
        let minimumFloor = 2500;
            percentagePayment = Math_ceil (times_0_02 balance)
        in if balance < minimumFloor then balance
           else max percentagePayment minimumFloor)"

subsection \<open>Store queries and \<open>generateStatementForAccount\<close>\<close>





section \<open>Concurrent submissions: the handler between its \<open>await\<close>s\<close>

text \<open>
  An \<open>async\<close> function runs without interruption from one \<open>await\<close> to the next; other
  calls in flight run in between. The store's functions do their reading and writing when
  they are called, before the caller's \<open>await\<close> suspends it. A call of
  \<open>handleTransactionWebhook\<close> in flight is therefore one of the following suspended
  continuations, named by the \<open>await\<close> it waits at and holding the locals that are live
  there. A looked-up account is the object held in the \<open>accounts\<close> map, which
  \<open>updateBalance\<close> mutates in place, so the continuation holds its key and reads its
  fields from the store when it resumes. No account is ever removed here, so that second
  reading finds it; the model answers \<open>account_not_found\<close> if it did not.
\<close>

datatype Task =
    Start TransactionWebhookPayload
  | PT_AwaitTransaction TransactionWebhookPayload "Transaction option"
  | PT_AwaitCard TransactionWebhookPayload "Card option"
  | PT_AwaitAccount TransactionWebhookPayload Card "string option"
  | H_AwaitResult TransactionWebhookPayload ApprovalResult
  | H_AwaitTransaction TransactionWebhookPayload ApprovalResult "Transaction option"
  | H_AwaitCard TransactionWebhookPayload ApprovalResult "Card option"
  | H_AwaitCreate TransactionWebhookPayload ApprovalResult "Card option"
  | H_AwaitUpdate TransactionWebhookPayload ApprovalResult
  | Done WebhookResponse

text \<open>One resumption: from the \<open>await\<close> the task waits at to its next \<open>await\<close>.\<close>

fun resume :: "int \<Rightarrow> int \<Rightarrow> Db \<Rightarrow> Task \<Rightarrow> Db \<times> Task" where
  "resume created updated db (Start payload) =
     (db, PT_AwaitTransaction payload (transactions_findById db (pl_id payload)))"
| "resume created updated db (PT_AwaitTransaction payload (Some existingTransaction)) =
     (db, H_AwaitResult payload
            \<lparr>res_approved = (tx_status existingTransaction = Approved),
             res_reason = denialReason existingTransaction,
             res_card = None, res_account = None\<rparr>)"
| "resume created updated db (PT_AwaitTransaction payload None) =
     (db, PT_AwaitCard payload (cards_findById db (card_id payload)))"
| "resume created updated db (PT_AwaitCard payload None) =
     (db, H_AwaitResult payload (deny card_not_found))"
| "resume created updated db (PT_AwaitCard payload (Some crd)) =
     (if crd_status crd \<noteq> CardActive then (db, H_AwaitResult payload (deny card_not_active))
      else (db, PT_AwaitAccount payload crd
                  (case accounts_findById db (crd_accountId crd) of
                     None \<Rightarrow> None
                   | Some _ \<Rightarrow> Some (crd_accountId crd))))"
| "resume created updated db (PT_AwaitAccount payload crd None) =
     (db, H_AwaitResult payload (deny account_not_found))"
| "resume created updated db (PT_AwaitAccount payload crd (Some key)) =
     (case accounts_findById db key of
        None \<Rightarrow> (db, H_AwaitResult payload (deny account_not_found))
      | Some account \<Rightarrow>
          (db, H_AwaitResult payload
             (if acc_status account \<noteq> AccountActive then deny account_not_active
              else
                let newBalance = currentBalance account + amount payload in
                if newBalance > creditLimit account then deny insufficient_credit
                else if (case spendingLimit crd of
                           None \<Rightarrow> False
                         | Some limit \<Rightarrow> limit \<noteq> 0 \<and> amount payload > limit)
                then deny exceeds_card_limit
                else \<lparr>res_approved = True, res_reason = None,
                      res_card = Some crd, res_account = Some account\<rparr>)))"
| "resume created updated db (H_AwaitResult payload result) =
     (db, H_AwaitTransaction payload result (transactions_findById db (pl_id payload)))"
| "resume created updated db (H_AwaitTransaction payload result (Some existingTransaction)) =
     (db, Done \<lparr>approved = res_approved result\<rparr>)"
| "resume created updated db (H_AwaitTransaction payload result None) =
     (case res_card result of
        Some c \<Rightarrow>
          (transactions_create db (mkTransaction created payload result (Some c)),
           H_AwaitCreate payload result (Some c))
      | None \<Rightarrow> (db, H_AwaitCard payload result (cards_findById db (card_id payload))))"
| "resume created updated db (H_AwaitCard payload result crd) =
     (transactions_create db (mkTransaction created payload result crd),
      H_AwaitCreate payload result crd)"
| "resume created updated db (H_AwaitCreate payload result crd) =
     (case crd of
        Some c \<Rightarrow>
          if res_approved result
          then (fst (accounts_updateBalance updated db (crd_accountId c) (amount payload)),
                H_AwaitUpdate payload result)
          else (db, Done \<lparr>approved = res_approved result\<rparr>)
      | None \<Rightarrow> (db, Done \<lparr>approved = res_approved result\<rparr>))"
| "resume created updated db (H_AwaitUpdate payload result) =
     (db, Done \<lparr>approved = res_approved result\<rparr>)"
| "resume created updated db (Done r) = (db, Done r)"

text \<open>
  A schedule names, resumption by resumption, the call in flight that runs next; the calls
  share the store. All calls read the same two clock values.
\<close>

fun runSchedule :: "int \<Rightarrow> int \<Rightarrow> nat list \<Rightarrow> Db \<times> Task list \<Rightarrow> Db \<times> Task list" where
  "runSchedule created updated [] conf = conf"
| "runSchedule created updated (i # sched) (db, tasks) =
     (if i < length tasks
      then (let (db', t') = resume created updated db (tasks ! i)
            in runSchedule created updated sched (db', tasks[i := t']))
      else runSchedule created updated sched (db, tasks))"

section \<open>The scenario of the specification\<close>

text \<open>
  Account \<open>A1\<close> (limit 100000, balance 0, active) with cards \<open>C1\<close> (no spending limit),
  \<open>C2\<close> (spending limit 10000) and \<open>C3\<close> (spending limit 0).
\<close>

definition accountA1 :: Account where
  "accountA1 = \<lparr>acc_id = ''A1'', creditLimit = 100000, currentBalance = 0,
                 acc_status = AccountActive, acc_createdAt = 0, acc_updatedAt = 0\<rparr>"

definition mkCard :: "string \<Rightarrow> int option \<Rightarrow> Card" where
  "mkCard i l = \<lparr>crd_id = i, crd_accountId = ''A1'', crd_status = CardActive,
                 spendingLimit = l, crd_createdAt = 0, crd_updatedAt = 0\<rparr>"

definition db0 :: Db where
  "db0 = \<lparr>accounts = [(''A1'', accountA1)],
          cards = [(''C1'', mkCard ''C1'' None), (''C2'', mkCard ''C2'' (Some 10000)),
                   (''C3'', mkCard ''C3'' (Some 0))],
          transactions = [], statements = []\<rparr>"

definition mkPayload :: "string \<Rightarrow> string \<Rightarrow> int \<Rightarrow> TransactionWebhookPayload" where
  "mkPayload i c a =
     \<lparr>pl_id = i, card_id = c, amount = a, currency = ''USD'',
      merchant_data = \<lparr>category = 5411,
                       address = \<lparr>line_1 = ''1 Main St'', line_2 = None, pa_city = ''Springfield'',
                                  pa_state = ''IL'', pa_country = ''US''\<rparr>\<rparr>\<rparr>"

definition db1 :: Db where
  "db1 = fst (handleTransactionWebhook 1000 1001 db0 (mkPayload ''T1'' ''C1'' 50000))"





section \<open>Properties of the orchestrator and the decision engine\<close>

lemmas db_defs = accounts_findById_def cards_findById_def transactions_findById_def
  transactions_create_def accounts_updateBalance_def

lemmas scenario_defs = db0_def accountA1_def mkCard_def mkPayload_def

lemma db1_eval:
  "db1 = db0\<lparr>accounts := [(''A1'', accountA1\<lparr>currentBalance := 50000, acc_updatedAt := 1001\<rparr>)],
             transactions :=
               [(''T1'', mkTransaction 1000 (mkPayload ''T1'' ''C1'' 50000)
                          \<lparr>res_approved = True, res_reason = None,
                           res_card = Some (mkCard ''C1'' None), res_account = Some accountA1\<rparr>
                          (Some (mkCard ''C1'' None)))]\<rparr>"
  by (simp add: db1_def handleTransactionWebhook_def processTransaction_def db_defs
        scenario_defs deny_def mkTransaction_def Let_def)

text \<open>
  C1. When the payload's identifier already has a Transaction record, the handler answers
  with the recorded verdict (approved exactly when the stored status is approved) and
  returns the store as it was: no record is created and no balance changes.
\<close>

theorem handle_existing_replay:
  assumes "transactions_findById db (pl_id payload) = Some t"
  shows "handleTransactionWebhook created updated db payload
           = (db, \<lparr>approved = (tx_status t = Approved)\<rparr>)"
  using assms by (simp add: handleTransactionWebhook_def processTransaction_def)

text \<open>
  The scenario of the specification: \<open>T1\<close> for 50000 was approved and the balance is 50000;
  resubmitting \<open>T1\<close> is approved again and the store, balance included, stays as it is.
\<close>

theorem handle_existing_replay_witness:
  "transactions_findById db1 ''T1''
     = Some (mkTransaction 1000 (mkPayload ''T1'' ''C1'' 50000)
               \<lparr>res_approved = True, res_reason = None,
                res_card = Some (mkCard ''C1'' None), res_account = Some accountA1\<rparr>
               (Some (mkCard ''C1'' None)))
   \<and> map_option currentBalance (accounts_findById db1 ''A1'') = Some 50000
   \<and> handleTransactionWebhook 2000 2001 db1 (mkPayload ''T1'' ''C1'' 50000)
       = (db1, \<lparr>approved = True\<rparr>)"
proof -
  let ?t = "mkTransaction 1000 (mkPayload ''T1'' ''C1'' 50000)
               \<lparr>res_approved = True, res_reason = None,
                res_card = Some (mkCard ''C1'' None), res_account = Some accountA1\<rparr>
               (Some (mkCard ''C1'' None))"
  have h: "transactions_findById db1 (pl_id (mkPayload ''T1'' ''C1'' 50000)) = Some ?t"
    by (simp add: db1_eval transactions_findById_def mkPayload_def)
  have b: "map_option currentBalance (accounts_findById db1 ''A1'') = Some 50000"
    by (simp add: db1_eval accounts_findById_def)
  have s: "tx_status ?t = Approved"
    by (simp add: mkTransaction_def)
  from handle_existing_replay [OF h, of 2000 2001] h b s show ?thesis
    by (simp add: mkPayload_def)
qed




text \<open>
  C3. With no prior record, the reported reason is that of the first violated rule in the
  order card exists, card active, account exists, account active, credit limit, card
  spending limit, and the request is approved exactly when no rule is violated; so a later
  rule's reason is never reported when an earlier rule is violated. In particular a
  missing card is denied with \<open>card_not_found\<close> whatever the accounts are.
\<close>

theorem rule_chain_order:
  assumes "transactions_findById db (pl_id payload) = None"
  shows "res_reason (processTransaction db payload) = firstViolation (ruleTable db payload)
       \<and> res_approved (processTransaction db payload) = (firstViolation (ruleTable db payload) = None)
       \<and> (cards_findById db (card_id payload) = None
            \<longrightarrow> processTransaction db payload = deny card_not_found)"
  using assms
  by (auto simp: processTransaction_def ruleTable_def deny_def Let_def split: option.splits)

text \<open>A request on the unknown card \<open>C9\<close>.\<close>

theorem rule_chain_order_witness:
  "transactions_findById db0 ''T7'' = None
   \<and> cards_findById db0 ''C9'' = None
   \<and> firstViolation (ruleTable db0 (mkPayload ''T7'' ''C9'' 100)) = Some card_not_found
   \<and> processTransaction db0 (mkPayload ''T7'' ''C9'' 100) = deny card_not_found"
proof -
  let ?p = "mkPayload ''T7'' ''C9'' 100"
  have h: "transactions_findById db0 (pl_id ?p) = None"
    by (simp add: db_defs scenario_defs)
  have c: "cards_findById db0 (card_id ?p) = None"
    by (simp add: db_defs scenario_defs)
  have f: "firstViolation (ruleTable db0 ?p) = Some card_not_found"
    by (simp add: ruleTable_def c)
  from rule_chain_order [OF h] h c f show ?thesis
    by (simp add: mkPayload_def)
qed



text \<open>
  C5. Card \<open>C3\<close> has its spending limit set, to 0. A request for 15000 on it, with no
  prior record and passing the five rules before, exceeds that limit and is approved all
  the same: the guard reads the limit's truthiness, and 0 is falsy.
\<close>

theorem zero_spending_limit_approves:
  "cards_findById db0 ''C3'' = Some (mkCard ''C3'' (Some 0))
   \<and> spendingLimit (mkCard ''C3'' (Some 0)) = Some 0
   \<and> transactions_findById db0 ''T4'' = None
   \<and> processTransaction db0 (mkPayload ''T4'' ''C3'' 15000)
       = \<lparr>res_approved = True, res_reason = None,
          res_card = Some (mkCard ''C3'' (Some 0)), res_account = Some accountA1\<rparr>"
  by (simp add: processTransaction_def db_defs scenario_defs deny_def)

section \<open>Repeated submission of one identifier\<close>

lemma handle_recorded:
  "\<exists>t. transactions_findById (fst (handleTransactionWebhook created updated db p)) (pl_id p) = Some t
       \<and> approved (snd (handleTransactionWebhook created updated db p)) = (tx_status t = Approved)"
proof (cases "transactions_findById db (pl_id p)")
  case (Some t)
  then show ?thesis
    by (simp add: handleTransactionWebhook_def processTransaction_def)
next
  case None
  then show ?thesis
    by (auto simp: handleTransactionWebhook_def db_defs mkTransaction_def Let_def update_conv'
             split: option.splits)
qed

lemma handle_distinct:
  assumes "distinct (map fst (transactions db))"
  shows "distinct (map fst (transactions (fst (handleTransactionWebhook created updated db p))))"
  using assms
  by (auto simp: handleTransactionWebhook_def db_defs Let_def distinct_update
           split: option.splits)

lemma handle_accounts:
  "accounts (fst (handleTransactionWebhook created updated db p)) = accounts db
   \<or> (\<exists>c. cards_findById db (card_id p) = Some c
          \<and> accounts (fst (handleTransactionWebhook created updated db p))
              = accounts (fst (accounts_updateBalance updated db (crd_accountId c) (amount p))))"
proof (cases "res_approved (processTransaction db p) \<and> transactions_findById db (pl_id p) = None")
  case True
  then obtain c a where "cards_findById db (card_id p) = Some c"
    and "processTransaction db p
           = \<lparr>res_approved = True, res_reason = None, res_card = Some c, res_account = Some a\<rparr>"
    by (auto simp: processTransaction_def deny_def Let_def split: option.splits if_splits)
  with True show ?thesis
    by (auto simp: handleTransactionWebhook_def db_defs Let_def split: option.splits)
next
  case False
  then show ?thesis
    by (auto simp: handleTransactionWebhook_def db_defs Let_def split: option.splits)
qed

lemma submitAll_replays:
  assumes "transactions_findById db i = Some t"
    and "\<forall>r \<in> set reqs. pl_id (snd (snd r)) = i"
  shows "submitAll db reqs = (db, replicate (length reqs) \<lparr>approved = (tx_status t = Approved)\<rparr>)"
  using assms(2)
proof (induction reqs)
  case Nil
  show ?case by simp
next
  case (Cons r reqs)
  obtain c u p where r: "r = (c, u, p)" by (cases r) auto
  with Cons.prems have "pl_id p = i" by simp
  with assms(1) have "handleTransactionWebhook c u db p
                        = (db, \<lparr>approved = (tx_status t = Approved)\<rparr>)"
    by (simp add: handleTransactionWebhook_def processTransaction_def)
  with Cons r show ?case by simp
qed

lemma one_entry_per_key:
  assumes "distinct (map fst al)" and "map_of al k = Some v"
  shows "length (filter (\<lambda>kt. fst kt = k) al) = 1"
  using assms
proof (induction al)
  case Nil
  then show ?case by simp
next
  case (Cons x al)
  show ?case
  proof (cases "fst x = k")
    case True
    from Cons.prems(1) have "fst x \<notin> fst ` set al" by simp
    with True have "\<forall>kt \<in> set al. fst kt \<noteq> k" by (metis imageI)
    then have "filter (\<lambda>kt. fst kt = k) al = []" by (simp add: filter_empty_conv)
    with True show ?thesis by simp
  next
    case False
    with Cons.prems have "map_of al k = Some v" by (cases x) auto
    with Cons False show ?thesis by simp
  qed
qed

text \<open>
  C6, amended to sequential submissions. \<open>N \<ge> 1\<close> requests with one identifier, each
  handled to completion before the next one starts, on a store whose transactions map has
  one entry per key: the store afterwards is the store the first submission alone leaves
  (so the accounts are either untouched or changed by the single \<open>updateBalance\<close> of the
  first request), it holds exactly one record with the identifier, and each of the \<open>N\<close>
  answers is that record's verdict.
\<close>

theorem sequential_submissions_once:
  assumes "distinct (map fst (transactions db))"
    and "\<forall>r \<in> set rest. pl_id (snd (snd r)) = pl_id p"
    and "dbN = fst (submitAll db ((created, updated, p) # rest))"
    and "rs = snd (submitAll db ((created, updated, p) # rest))"
  shows "dbN = fst (handleTransactionWebhook created updated db p)
       \<and> length rs = Suc (length rest)
       \<and> length (filter (\<lambda>kt. fst kt = pl_id p) (transactions dbN)) = 1
       \<and> (\<exists>t. transactions_findById dbN (pl_id p) = Some t
              \<and> (\<forall>r \<in> set rs. approved r = (tx_status t = Approved)))
       \<and> (accounts dbN = accounts db
            \<or> (\<exists>c. cards_findById db (card_id p) = Some c
                  \<and> accounts dbN
                      = accounts (fst (accounts_updateBalance updated db (crd_accountId c)
                                         (amount p)))))"
proof -
  let ?h = "handleTransactionWebhook created updated db p"
  from handle_recorded [of created updated db p]
  obtain t where t: "transactions_findById (fst ?h) (pl_id p) = Some t"
    and v: "approved (snd ?h) = (tx_status t = Approved)"
    by blast
  from submitAll_replays [OF t assms(2)]
  have s: "submitAll (fst ?h) rest
             = (fst ?h, replicate (length rest) \<lparr>approved = (tx_status t = Approved)\<rparr>)" .
  have n: "dbN = fst ?h" and r: "rs = snd ?h # replicate (length rest) \<lparr>approved = (tx_status t = Approved)\<rparr>"
    by (simp_all add: assms(3,4) s split_beta Let_def)
  have "length (filter (\<lambda>kt. fst kt = pl_id p) (transactions (fst ?h))) = 1"
    using handle_distinct [OF assms(1)] t
    by (intro one_entry_per_key) (simp_all add: transactions_findById_def)
  moreover have "\<forall>r \<in> set rs. approved r = (tx_status t = Approved)"
    using v by (auto simp: r)
  ultimately show ?thesis
    using n r t handle_accounts [of created updated db p] by auto
qed

text \<open>
  \<open>T1\<close> for 50000 submitted three times in a row: approved each time, one record, balance
  50000.
\<close>

theorem sequential_submissions_once_witness:
  "distinct (map fst (transactions db0))
   \<and> snd (submitAll db0 [(1000, 1001, mkPayload ''T1'' ''C1'' 50000),
                          (2000, 2001, mkPayload ''T1'' ''C1'' 50000),
                          (3000, 3001, mkPayload ''T1'' ''C1'' 50000)])
       = [\<lparr>approved = True\<rparr>, \<lparr>approved = True\<rparr>, \<lparr>approved = True\<rparr>]
   \<and> fst (submitAll db0 [(1000, 1001, mkPayload ''T1'' ''C1'' 50000),
                          (2000, 2001, mkPayload ''T1'' ''C1'' 50000),
                          (3000, 3001, mkPayload ''T1'' ''C1'' 50000)]) = db1
   \<and> map_option currentBalance (accounts_findById db1 ''A1'') = Some 50000
   \<and> length (filter (\<lambda>kt. fst kt = ''T1'') (transactions db1)) = 1"
proof -
  let ?p = "mkPayload ''T1'' ''C1'' 50000"
  let ?rest = "[(2000, 2001, ?p), (3000, 3001, ?p)]"
  have d: "distinct (map fst (transactions db0))"
    by (simp add: db0_def)
  have a: "\<forall>r \<in> set ?rest. pl_id (snd (snd r)) = pl_id ?p"
    by simp
  have h: "handleTransactionWebhook 1000 1001 db0 ?p = (db1, \<lparr>approved = True\<rparr>)"
    by (simp add: db1_eval handleTransactionWebhook_def processTransaction_def db_defs
          scenario_defs deny_def mkTransaction_def Let_def)
  have k: "handleTransactionWebhook 2000 2001 db1 ?p = (db1, \<lparr>approved = True\<rparr>)"
    "handleTransactionWebhook 3000 3001 db1 ?p = (db1, \<lparr>approved = True\<rparr>)"
    by (simp_all add: db1_eval handleTransactionWebhook_def processTransaction_def db_defs
          scenario_defs mkTransaction_def)
  have s: "submitAll db0 ((1000, 1001, ?p) # ?rest)
             = (db1, [\<lparr>approved = True\<rparr>, \<lparr>approved = True\<rparr>, \<lparr>approved = True\<rparr>])"
    by (simp add: h k)
  have b: "map_option currentBalance (accounts_findById db1 ''A1'') = Some 50000"
    by (simp add: db1_eval accounts_findById_def)
  have i: "pl_id ?p = ''T1''"
    by (simp add: mkPayload_def)
  have "length (filter (\<lambda>kt. fst kt = pl_id ?p) (transactions db1)) = 1"
    using sequential_submissions_once [where created = 1000 and updated = 1001, OF d a refl refl]
    unfolding s by simp
  then show ?thesis
    using d b by (simp add: s i del: submitAll.simps)
qed

section \<open>Concurrent submission of one identifier\<close>

text \<open>
  A call that runs alone, resumed eight times, is finished and has done what
  \<open>handleTransactionWebhook\<close> does.
\<close>

lemma lone_task_is_handler:
  "runSchedule created updated [0, 0, 0, 0, 0, 0, 0, 0] (db, [Start p])
     = (fst (handleTransactionWebhook created updated db p),
        [Done (snd (handleTransactionWebhook created updated db p))])"
  by (auto simp: handleTransactionWebhook_def processTransaction_def db_defs deny_def Let_def
           split: option.splits)

text \<open>
  C6, as stated, fails for concurrent submissions. Two calls for \<open>T1\<close> (50000 on card
  \<open>C1\<close>, balance 0) are in flight and resumed in turn. Both find no record, both are
  approved, both write the record and both add the amount: one record, two answers
  \<open>approved\<close>, and a balance of 100000.
\<close>

theorem concurrent_submissions_twice:
  "map_option currentBalance (accounts_findById db0 ''A1'') = Some 0
   \<and> snd (runSchedule 1000 1001 [0, 1, 0, 1, 0, 1, 0, 1, 0, 1, 0, 1, 0, 1, 0, 1]
            (db0, [Start (mkPayload ''T1'' ''C1'' 50000), Start (mkPayload ''T1'' ''C1'' 50000)]))
       = [Done \<lparr>approved = True\<rparr>, Done \<lparr>approved = True\<rparr>]
   \<and> map_option currentBalance
        (accounts_findById
          (fst (runSchedule 1000 1001 [0, 1, 0, 1, 0, 1, 0, 1, 0, 1, 0, 1, 0, 1, 0, 1]
                 (db0, [Start (mkPayload ''T1'' ''C1'' 50000),
                        Start (mkPayload ''T1'' ''C1'' 50000)]))) ''A1'')
       = Some 100000
   \<and> map fst (transactions
        (fst (runSchedule 1000 1001 [0, 1, 0, 1, 0, 1, 0, 1, 0, 1, 0, 1, 0, 1, 0, 1]
               (db0, [Start (mkPayload ''T1'' ''C1'' 50000),
                      Start (mkPayload ''T1'' ''C1'' 50000)])))) = [''T1'']"
  by (simp add: db_defs scenario_defs deny_def mkTransaction_def Let_def)

section \<open>The minimum payment\<close>

lemma bitLength_upper: "0 \<le> n \<Longrightarrow> n < 2 ^ bitLength n"
proof (induction n rule: bitLength.induct)
  case (1 n)
  show ?case
  proof (cases "n \<le> 0")
    case True
    with 1(2) show ?thesis by (simp add: bitLength.simps [of n])
  next
    case False
    then have "n div 2 < 2 ^ bitLength (n div 2)"
      using 1 by simp
    then have "n < 2 * 2 ^ bitLength (n div 2)"
      by linarith
    with False show ?thesis by (simp add: bitLength.simps [of n])
  qed
qed

lemma bitLength_lower: "0 < n \<Longrightarrow> 2 ^ bitLength n \<le> 2 * n"
proof (induction n rule: bitLength.induct)
  case (1 n)
  show ?case
  proof (cases "n div 2 = 0")
    case True
    with 1(2) have "n = 1" by linarith
    then show ?thesis by (simp add: bitLength.simps [of 1] bitLength.simps [of 0])
  next
    case False
    with 1(2) have p: "0 < n div 2" by linarith
    with 1 have "2 ^ bitLength (n div 2) \<le> 2 * (n div 2)" by simp
    then have "2 * 2 ^ bitLength (n div 2) \<le> 2 * n" by linarith
    with 1(2) show ?thesis by (simp add: bitLength.simps [of n])
  qed
qed

lemma bitLength_le: 
  assumes "n < 2 ^ k" shows "bitLength n \<le> k"
proof (cases "0 < n")
  case True
  from bitLength_lower [OF True] assms have "(2::int) ^ bitLength n < 2 ^ (k + 1)" by simp
  then have "bitLength n < k + 1" by (simp only: power_strict_increasing_iff) 
  then show ?thesis by simp
next
  case False
  then show ?thesis by (simp add: bitLength.simps [of n])
qed

lemma roundShift_near:
  assumes "0 \<le> e" "2 * e < 2 ^ s"
  shows "roundShift (m * 2 ^ s + e) s = m"
proof (cases s)
  case 0
  with assms show ?thesis by (simp add: roundShift_def)
next
  case (Suc t)
  from assms have e: "e < 2 ^ s" by linarith
  have d: "(m * 2 ^ s + e) div 2 ^ s = m"
    using assms(1) e by (simp add: div_pos_pos_trivial)
  have r: "(m * 2 ^ s + e) mod 2 ^ s = e"
    using assms(1) e by (simp add: mod_pos_pos_trivial)
  from Suc have s0: "s \<noteq> 0" by simp
  from assms(2) Suc have h: "e < 2 ^ (s - 1)" by simp
  show ?thesis
    unfolding roundShift_def Let_def d r using s0 h by simp
qed

lemma roundShift_le:
  assumes "n \<le> m * 2 ^ s"
  shows "roundShift n s \<le> m"
proof (cases s)
  case 0
  with assms show ?thesis by (simp add: roundShift_def)
next
  case (Suc t)
  have q: "n div 2 ^ s \<le> m"
    using assms zdiv_mono1 [of n "m * 2 ^ s" "2 ^ s"] by simp
  show ?thesis
  proof (cases "n div 2 ^ s = m")
    case True
    have "n = m * 2 ^ s + n mod 2 ^ s"
      using True div_mult_mod_eq [of n "2 ^ s"] by simp
    with assms have "n mod 2 ^ s \<le> 0" by linarith
    moreover have "0 \<le> n mod (2 ^ s :: int)" by simp
    ultimately have "n mod 2 ^ s = 0" by linarith
    with True Suc show ?thesis by (simp add: roundShift_def Let_def)
  next
    case False
    with q have "n div 2 ^ s + 1 \<le> m" by linarith
    then show ?thesis using Suc by (simp add: roundShift_def Let_def)
  qed
qed

lemma twice_diff_le:
  fixes r p :: int
  assumes "r < p" "0 < p" "0 \<le> r"
  shows "2 * (r - p) \<le> p"
  using assms by simp

lemma roundShift_error:
  "2 * (n - roundShift n s * 2 ^ s) \<le> 2 ^ s"
proof (cases s)
  case 0
  then show ?thesis by (simp add: roundShift_def)
next
  case (Suc t)
  have p: "(2::int) ^ s = 2 * 2 ^ (s - 1)" using Suc by simp
  have nn: "0 \<le> n mod (2 ^ s :: int)" by simp
  show ?thesis
  proof (cases "n mod 2 ^ s < 2 ^ (s - 1) \<or> (n mod 2 ^ s = 2 ^ (s - 1) \<and> even (n div 2 ^ s))")
    case True
    then have "roundShift n s = n div 2 ^ s" using Suc by (simp add: roundShift_def Let_def)
    then have "n - roundShift n s * 2 ^ s = n mod 2 ^ s"
      by (simp add: minus_div_mult_eq_mod)
    with True p show ?thesis by auto
  next
    case False
    then have "roundShift n s = n div 2 ^ s + 1" using Suc by (simp add: roundShift_def Let_def)
    then have e: "n - roundShift n s * 2 ^ s = n mod 2 ^ s - 2 ^ s"
      by (simp add: algebra_simps minus_div_mult_eq_mod minus_mult_div_eq_mod)
    have "n mod (2 ^ s :: int) < 2 ^ s" by simp
    moreover have "0 < (2::int) ^ s" by simp
    ultimately have "2 * (n mod 2 ^ s - 2 ^ s) \<le> (2::int) ^ s" using nn by (rule twice_diff_le)
    then show ?thesis by (simp only: e)
  qed
qed

lemma Math_ceil_eq:
  assumes "(c - 1) * 2 ^ 58 < m" "m \<le> c * 2 ^ 58"
  shows "Math_ceil m = c"
proof -
  have "(- m) div 2 ^ 58 = - c"
    by (rule int_div_pos_eq [where r = "c * 2 ^ 58 - m"]) (use assms in \<open>simp_all add: algebra_simps\<close>)
  then show ?thesis by (simp add: Math_ceil_def)
qed

lemma ceil_div_50:
  fixes k j :: int
  assumes "0 \<le> j" "j < 50"
  shows "- ((- (50 * k + j)) div 50) = (if j = 0 then k else k + 1)"
proof (cases "j = 0")
  case True
  then show ?thesis by simp
next
  case False
  have "(- (50 * k + j)) div 50 = - (k + 1)"
    by (rule int_div_pos_eq [where r = "50 - j"]) (use assms False in simp_all)
  with False show ?thesis by simp
qed

lemma times_0_02_ceil:
  assumes "0 < b" "b \<le> 2 ^ 53"
  shows "Math_ceil (times_0_02 b) = - ((- b) div 50)"
proof -
  define N where "N = b * literal_0_02"
  define s where "s = bitLength N - 53"
  define S :: int where "S = 2 ^ s"
  define Q :: int where "Q = 2 ^ (58 - s)"
  define k where "k = b div 50"
  define j where "j = b mod 50"
  have b: "b = 50 * k + j" and j: "0 \<le> j" "j < 50"
    by (simp_all add: k_def j_def)
  have k: "0 \<le> k" using assms(1) by (simp add: k_def)
  have N50: "50 * N = b * 2 ^ 58 + 6 * b"
    by (simp add: N_def literal_0_02_def)
  have Npos: "0 < N" using assms(1) by (simp add: N_def literal_0_02_def)
  have "50 * N < 50 * 2 ^ 106" using N50 assms(2) by simp
  then have "N < 2 ^ 106" by simp
  then have "bitLength N \<le> 106" by (rule bitLength_le)
  then have s53: "s \<le> 53" by (simp add: s_def)
  have t: "times_0_02 b = roundShift N s * S"
    using assms(1) by (simp add: times_0_02_def round53_def N_def s_def S_def Let_def)
  have S0: "0 < S" by (simp add: S_def)
  have "Q * S = 2 ^ (58 - s + s)" unfolding Q_def S_def by (rule power_add [symmetric])
  then have QS: "Q * S = 2 ^ 58" using s53 by simp
  have c: "- ((- b) div 50) = (if j = 0 then k else k + 1)"
    unfolding b using j by (rule ceil_div_50)
  show ?thesis
  proof (cases "j = 0")
    case True
    with b have bk: "b = 50 * k" by simp
    have Nk: "N = k * 2 ^ 58 + 6 * k" using N50 bk by simp
    have "bitLength N \<le> s + 53" by (simp add: s_def)
    then have "(2::int) ^ bitLength N \<le> 2 ^ (s + 53)"
      by (simp only: power_increasing_iff one_less_numeral_iff semiring_norm)
    then have "(2::int) ^ bitLength N \<le> S * 2 ^ 53"
      by (simp only: power_add S_def)
    moreover have "N < 2 ^ bitLength N" using Npos by (simp add: bitLength_upper)
    ultimately have "N < S * 2 ^ 53" by linarith
    with Nk k have "k * 2 ^ 58 < S * 2 ^ 53" by linarith
    then have "k * 32 < S" by simp
    with k have "2 * (6 * k) < S" by linarith
    then have e: "2 * (6 * k) < 2 ^ s" by (simp only: S_def)
    have "N = k * (Q * S) + 6 * k" using Nk by (simp only: QS)
    then have "N = (k * Q) * 2 ^ s + 6 * k" by (simp only: S_def mult.assoc)
    moreover have "roundShift ((k * Q) * 2 ^ s + 6 * k) s = k * Q"
      using k e by (intro roundShift_near) simp_all
    ultimately have "roundShift N s = k * Q" by simp
    then have "times_0_02 b = k * (Q * S)" by (simp only: t mult.assoc)
    then have "times_0_02 b = k * 2 ^ 58" by (simp only: QS)
    then have "Math_ceil (times_0_02 b) = k"
      by (simp add: Math_ceil_def)
    with c True show ?thesis by simp
  next
    case False
    with j have j1: "1 \<le> j" by linarith
    have "50 * N \<le> 50 * ((k + 1) * 2 ^ 58)"
      using N50 b j assms(2) by (simp add: algebra_simps)
    then have "N \<le> (k + 1) * 2 ^ 58" by simp
    then have "N \<le> (k + 1) * (Q * S)" by (simp only: QS)
    then have "N \<le> ((k + 1) * Q) * 2 ^ s" by (simp only: S_def mult.assoc)
    then have "roundShift N s \<le> (k + 1) * Q"
      by (rule roundShift_le)
    then have "roundShift N s * S \<le> ((k + 1) * Q) * S"
      using S0 by (simp only: mult_le_cancel_right_pos)
    then have "times_0_02 b \<le> (k + 1) * (Q * S)" by (simp only: t mult.assoc)
    then have up: "times_0_02 b \<le> (k + 1) * 2 ^ 58" by (simp only: QS)
    have "(2::int) ^ s \<le> 2 ^ 53"
      using s53 by (simp only: power_increasing_iff one_less_numeral_iff semiring_norm)
    moreover have "2 * (N - roundShift N s * 2 ^ s) \<le> 2 ^ s" by (rule roundShift_error)
    ultimately have "2 * (N - roundShift N s * 2 ^ s) \<le> 2 ^ 53" by linarith
    then have "2 * (N - times_0_02 b) \<le> 2 ^ 53" by (simp only: t S_def)
    moreover have "50 * (N - k * 2 ^ 58) = j * 2 ^ 58 + 6 * b"
      using N50 b by (simp add: algebra_simps)
    ultimately have "k * 2 ^ 58 < times_0_02 b"
      using j1 assms(1) by simp
    then have lo: "(k + 1 - 1) * 2 ^ 58 < times_0_02 b" by simp
    from lo up have "Math_ceil (times_0_02 b) = k + 1" by (rule Math_ceil_eq)
    with c False show ?thesis by simp
  qed
qed

lemma isDouble_upto_2_53:
  assumes "\<bar>b\<bar> \<le> 2 ^ 53"
  shows "isDouble b"
proof (cases "\<bar>b\<bar> = 2 ^ 53")
  case True
  then have l: "bitLength \<bar>b\<bar> = 54"
    by (simp add: bitLength.simps)
  from True have "b = 2 ^ 53 \<or> b = - (2 ^ 53)" by linarith
  then have "2 dvd b" by auto
  with l show ?thesis by (simp add: isDouble_def)
next
  case False
  with assms have "\<bar>b\<bar> < 2 ^ 53" by simp
  then have "bitLength \<bar>b\<bar> \<le> 53" by (rule bitLength_le)
  then show ?thesis by (simp add: isDouble_def)
qed

lemma real_ceiling_two_percent: "\<lceil>real_of_int b * 0.02\<rceil> = - ((- b) div 50)"
proof -
  have "real_of_int b * 0.02 = - (real_of_int (- b) / real_of_int 50)" by simp
  then have "\<lceil>real_of_int b * 0.02\<rceil> = - \<lfloor>real_of_int (- b) / real_of_int 50\<rfloor>"
    by (simp only: ceiling_def minus_minus)
  then show ?thesis by (simp only: floor_divide_of_int_eq)
qed

text \<open>
  C7, as stated, fails: 28147497671065652 is an integer that is a binary64 number; two
  percent of it is 562949953421313.04, whose ceiling is 562949953421314, but the binary64
  product rounds down to 562949953421313 and that is the minimum payment returned.
\<close>

theorem calculateMinimumPayment_inexact:
  "isDouble 28147497671065652
   \<and> calculateMinimumPayment 28147497671065652 = 562949953421313
   \<and> max \<lceil>real_of_int 28147497671065652 * 0.02\<rceil> 2500 = 562949953421314"
proof -
  have "isDouble 28147497671065652"
    by (simp add: isDouble_def bitLength.simps)
  moreover have "calculateMinimumPayment 28147497671065652 = 562949953421313"
    by (simp add: calculateMinimumPayment_def Math_ceil_def times_0_02_def round53_def
          roundShift_def literal_0_02_def bitLength.simps)
  moreover have "max \<lceil>real_of_int 28147497671065652 * 0.02\<rceil> 2500 = 562949953421314"
    by (simp add: real_ceiling_two_percent)
  ultimately show ?thesis by simp
qed

text \<open>
  C7, amended. For every integer closing balance up to \<open>2^53\<close> (below which every integer
  is a binary64 number) the minimum payment is 0 for a balance that is not positive, the
  balance itself below 2500, and otherwise the greater of the exact ceiling of two percent
  of the balance and 2500: in that range the binary64 product never rounds across an
  integer.
\<close>

theorem calculateMinimumPayment_exact:
  assumes "b \<le> 2 ^ 53"
  shows "calculateMinimumPayment b
           = (if b \<le> 0 then 0
              else if b < 2500 then b
              else max \<lceil>real_of_int b * 0.02\<rceil> 2500)"
proof (cases "b \<le> 0")
  case True
  then show ?thesis by (simp add: calculateMinimumPayment_def)
next
  case False
  then have "0 < b" by simp
  then have "Math_ceil (times_0_02 b) = \<lceil>real_of_int b * 0.02\<rceil>"
    using assms by (simp only: times_0_02_ceil real_ceiling_two_percent)
  with False show ?thesis by (simp add: calculateMinimumPayment_def Let_def)
qed

text \<open>
  At the floor, 2500, two percent is 50 and the payment is the floor; at 48000 it is still
  the floor (two percent is 960); at 200001 it is the ceiling 4001 of 4000.02.
\<close>

theorem calculateMinimumPayment_exact_witness:
  "(2500::int) \<le> 2 ^ 53
   \<and> calculateMinimumPayment 2500 = 2500
   \<and> calculateMinimumPayment 48000 = 2500
   \<and> calculateMinimumPayment 200001 = 4001
   \<and> calculateMinimumPayment 1200 = 1200
   \<and> calculateMinimumPayment (- 5) = 0"
proof -
  have h: "(2500::int) \<le> 2 ^ 53" "(48000::int) \<le> 2 ^ 53" "(200001::int) \<le> 2 ^ 53"
    "(1200::int) \<le> 2 ^ 53" "(- 5::int) \<le> 2 ^ 53"
    by simp_all
  have c: "\<lceil>real_of_int 2500 * 0.02\<rceil> = 50" "\<lceil>real_of_int 48000 * 0.02\<rceil> = 960"
    "\<lceil>real_of_int 200001 * 0.02\<rceil> = 4001"
    by (simp_all only: real_ceiling_two_percent)
  from calculateMinimumPayment_exact [OF h(1)] calculateMinimumPayment_exact [OF h(2)]
    calculateMinimumPayment_exact [OF h(3)] calculateMinimumPayment_exact [OF h(4)]
    calculateMinimumPayment_exact [OF h(5)] c
  show ?thesis by simp
qed

section \<open>The statement of an account\<close>







section \<open>Amounts and the zero spending limit\<close>

text \<open>
  C9, as stated, fails: a payload of the declared type with amount -500 passes validation,
  is approved by the rule chain, and its record is stored with amount -500 (the balance
  goes from 0 to -500).
\<close>

theorem negative_amount_stored:
  "validateWebhookPayload (jsOfPayload (mkPayload ''T5'' ''C1'' (- 500))) = []
   \<and> transactions_findById db0 ''T5'' = None
   \<and> map_option tx_amount
        (transactions_findById
           (fst (postWebhookTransactions 1000 1001 db0 (mkPayload ''T5'' ''C1'' (- 500)))) ''T5'')
       = Some (- 500)
   \<and> map_option currentBalance
        (accounts_findById
           (fst (postWebhookTransactions 1000 1001 db0 (mkPayload ''T5'' ''C1'' (- 500)))) ''A1'')
       = Some (- 500)
   \<and> snd (postWebhookTransactions 1000 1001 db0 (mkPayload ''T5'' ''C1'' (- 500)))
       = \<lparr>approved = True\<rparr>"
  by (simp add: postWebhookTransactions_def validateWebhookPayload_def jsOfPayload_def
        handleTransactionWebhook_def processTransaction_def db_defs scenario_defs
        deny_def mkTransaction_def Let_def)

lemma validate_typed_payload:
  "(validateWebhookPayload (jsOfPayload p) = [])
     = (pl_id p \<noteq> [] \<and> card_id p \<noteq> [] \<and> currency p \<noteq> [])"
  by (simp add: validateWebhookPayload_def jsOfPayload_def)

lemma handle_new_transactions:
  assumes "transactions_findById db (pl_id p) = None"
  shows "\<exists>t. transactions (fst (handleTransactionWebhook created updated db p))
              = AList.update (pl_id p) t (transactions db)
           \<and> tx_id t = pl_id p \<and> tx_amount t = amount p
           \<and> (tx_status t = Approved) = res_approved (processTransaction db p)"
  using assms
  by (auto simp: handleTransactionWebhook_def db_defs mkTransaction_def Let_def
           split: option.splits)

lemma set_update_subset: "set (AList.update k v al) \<subseteq> insert (k, v) (set al)"
  by (induction al) auto

text \<open>
  C9, amended. Validation does not look at the sign of the amount: a payload of the
  declared type passes exactly when its \<open>id\<close>, \<open>card_id\<close> and \<open>currency\<close> are non-empty.
  If such a payload has no prior record, the webhook route stores a record carrying the
  payload's amount unchanged, approved or denied; so the stored amounts are non-negative
  when they were before the call and the payload's amount is.
\<close>

theorem stored_amount_is_payload_amount:
  assumes "transactions_findById db (pl_id p) = None"
    and "pl_id p \<noteq> []" and "card_id p \<noteq> []" and "currency p \<noteq> []"
  shows "map_option tx_amount
           (transactions_findById (fst (postWebhookTransactions created updated db p)) (pl_id p))
         = Some (amount p)
       \<and> ((\<forall>kt \<in> set (transactions db). 0 \<le> tx_amount (snd kt)) \<and> 0 \<le> amount p
            \<longrightarrow> (\<forall>kt \<in> set (transactions (fst (postWebhookTransactions created updated db p))).
                   0 \<le> tx_amount (snd kt)))"
proof -
  have v: "validateWebhookPayload (jsOfPayload p) = []"
    using assms(2-4) by (simp add: validate_typed_payload)
  have e: "postWebhookTransactions created updated db p
             = handleTransactionWebhook created updated db p"
    by (simp add: postWebhookTransactions_def v)
  from handle_new_transactions [OF assms(1), of created updated]
  obtain t where t: "transactions (fst (handleTransactionWebhook created updated db p))
              = AList.update (pl_id p) t (transactions db)" "tx_amount t = amount p"
    by blast
  have "map_option tx_amount
           (transactions_findById (fst (postWebhookTransactions created updated db p)) (pl_id p))
         = Some (amount p)"
    by (simp add: e transactions_findById_def t update_conv')
  moreover have "\<forall>kt \<in> set (transactions (fst (postWebhookTransactions created updated db p))).
                   0 \<le> tx_amount (snd kt)"
    if "\<forall>kt \<in> set (transactions db). 0 \<le> tx_amount (snd kt)" "0 \<le> amount p"
    using that set_update_subset [of "pl_id p" t "transactions db"] t
    by (auto simp: e)
  ultimately show ?thesis by blast
qed

theorem stored_amount_is_payload_amount_witness:
  "transactions_findById db1 ''T9'' = None
   \<and> list_all (\<lambda>kt. 0 \<le> tx_amount (snd kt)) (transactions db1)
   \<and> map_option tx_amount
        (transactions_findById
           (fst (postWebhookTransactions 2000 2001 db1 (mkPayload ''T9'' ''C2'' 100))) ''T9'')
       = Some 100
   \<and> list_all (\<lambda>kt. 0 \<le> tx_amount (snd kt))
        (transactions (fst (postWebhookTransactions 2000 2001 db1 (mkPayload ''T9'' ''C2'' 100))))"
proof -
  let ?p = "mkPayload ''T9'' ''C2'' 100"
  have h: "transactions_findById db1 (pl_id ?p) = None"
    by (simp add: db1_eval db_defs scenario_defs)
  have n: "pl_id ?p \<noteq> []" "card_id ?p \<noteq> []" "currency ?p \<noteq> []"
    by (simp_all add: mkPayload_def)
  have z: "\<forall>kt \<in> set (transactions db1). 0 \<le> tx_amount (snd kt)" "0 \<le> amount ?p"
    by (simp_all add: db1_eval mkTransaction_def scenario_defs)
  have k: "pl_id ?p = ''T9''" "amount ?p = 100"
    by (simp_all add: mkPayload_def)
  from stored_amount_is_payload_amount [OF h n, of 2000 2001] h z k show ?thesis
    by (simp add: list_all_iff)
qed

text \<open>
  C10, as stated, fails on a replay: \<open>T3\<close> was denied on card \<open>C2\<close> for exceeding its
  limit of 10000; the same identifier submitted on card \<open>C3\<close>, whose limit is 0, is answered
  with the recorded reason \<open>exceeds_card_limit\<close>.
\<close>

theorem replay_reports_stored_reason:
  "cards_findById (fst (handleTransactionWebhook 1000 1001 db0 (mkPayload ''T3'' ''C2'' 15000))) ''C3''
      = Some (mkCard ''C3'' (Some 0))
   \<and> spendingLimit (mkCard ''C3'' (Some 0)) = Some 0
   \<and> res_reason (processTransaction
         (fst (handleTransactionWebhook 1000 1001 db0 (mkPayload ''T3'' ''C2'' 15000)))
         (mkPayload ''T3'' ''C3'' 5)) = Some exceeds_card_limit"
  by (simp add: handleTransactionWebhook_def processTransaction_def db_defs scenario_defs
        deny_def mkTransaction_def)

text \<open>
  C10, amended. For a request with no prior record on a card whose spending limit is
  present and 0, the reason \<open>exceeds_card_limit\<close> is never reported, and the request is
  approved whenever the card and its account are active and balance plus amount is within
  the credit limit.
\<close>

theorem zero_spending_limit_skipped:
  assumes "transactions_findById db (pl_id payload) = None"
    and "cards_findById db (card_id payload) = Some c" and "spendingLimit c = Some 0"
  shows "res_reason (processTransaction db payload) \<noteq> Some exceeds_card_limit
       \<and> (\<forall>a. crd_status c = CardActive \<and> accounts_findById db (crd_accountId c) = Some a
              \<and> acc_status a = AccountActive
              \<and> currentBalance a + amount payload \<le> creditLimit a
            \<longrightarrow> res_approved (processTransaction db payload))"
  using assms
  by (auto simp: processTransaction_def deny_def Let_def split: option.splits)

theorem zero_spending_limit_skipped_witness:
  "transactions_findById db0 ''T6'' = None
   \<and> map_option spendingLimit (cards_findById db0 ''C3'') = Some (Some 0)
   \<and> res_reason (processTransaction db0 (mkPayload ''T6'' ''C3'' 70000)) \<noteq> Some exceeds_card_limit
   \<and> res_approved (processTransaction db0 (mkPayload ''T6'' ''C3'' 70000))"
proof -
  let ?p = "mkPayload ''T6'' ''C3'' 70000"
  let ?c = "mkCard ''C3'' (Some 0)"
  have h: "transactions_findById db0 (pl_id ?p) = None"
    by (simp add: db_defs scenario_defs)
  have c: "cards_findById db0 (card_id ?p) = Some ?c"
    by (simp add: db_defs scenario_defs)
  have cs: "spendingLimit ?c = Some 0" "crd_status ?c = CardActive"
    by (simp_all add: mkCard_def)
  have a: "accounts_findById db0 (crd_accountId ?c) = Some accountA1"
    by (simp add: db_defs scenario_defs)
  have as: "acc_status accountA1 = AccountActive"
    "currentBalance accountA1 + amount ?p \<le> creditLimit accountA1"
    by (simp_all add: scenario_defs)
  from zero_spending_limit_skipped [OF h c cs(1)] h c cs a as show ?thesis
    by (auto simp: mkPayload_def)
qed

end
